theory Spec2Isabelle
  imports Main
begin

section \<open>ModemUtil: the login-to-restart sequence against the modem\<close>

text \<open>
  Source: \<^verbatim>\<open>src/index.ts\<close>, class \<^verbatim>\<open>ModemUtil\<close>. The three library calls the class makes
  are kept as data: \<^verbatim>\<open>formatUrl\<close> yields the record of the URL's components,
  \<^verbatim>\<open>stringifyQuery\<close> yields the list of its key/value pairs in order, and \<^verbatim>\<open>fetch\<close> is the
  environment, a function from the request to what comes back.
\<close>

datatype protocol = Http | Https

record IModemUtilOptions =
  username :: string
  password :: string
  ip :: string
  port :: "int option"
  protocol :: "protocol option"

text \<open>
  The constructor: \<^verbatim>\<open>{...options, protocol: options.protocol || "http",
  port: options.protocol === "https" ? 443 : 80}\<close>. Both computed fields come after the
  spread, so they replace whatever \<^verbatim>\<open>options\<close> carried.
\<close>

definition ModemUtil_constructor :: "IModemUtilOptions \<Rightarrow> IModemUtilOptions" where
  "ModemUtil_constructor options =
     options\<lparr> protocol := Some (case protocol options of None \<Rightarrow> Http | Some p \<Rightarrow> p),
              port := Some (if protocol options = Some Https then 443 else 80) \<rparr>"

type_synonym query = "(string \<times> string) list"

record UrlObject =
  url_protocol :: "protocol option"
  url_hostname :: string
  url_port :: "int option"
  url_pathname :: "string option"
  url_search :: "query option"

datatype http_method = GET | POST

record Request =
  req_url :: UrlObject
  req_method :: http_method
  req_body :: "query option"
  req_timeout :: "int option"

text \<open>
  What a \<^verbatim>\<open>fetch\<close> followed by \<^verbatim>\<open>response.text()\<close> gives: the body, or a rejection (no
  connection, DNS failure, abort by the timeout signal). A status code is not looked at
  by the source, so it is not part of the model.
\<close>

datatype Response = Rejected | Text string

datatype error =
    FetchError
  | Error string
  | TypeError

subsection \<open>The two patterns matched against the HTML\<close>

text \<open>
  Both regular expressions have the shape \<^verbatim>\<open>/P(.*)S/\<close> with literal \<^verbatim>\<open>P\<close> and \<^verbatim>\<open>S\<close>.
  \<^verbatim>\<open>String.prototype.match\<close> takes the leftmost position where \<^verbatim>\<open>P\<close> stands; there \<^verbatim>\<open>.*\<close>
  is greedy over characters that are not line terminators and gives characters back
  until \<^verbatim>\<open>S\<close> follows. \<open>None\<close> is JavaScript's \<^verbatim>\<open>null\<close>.
\<close>

definition line_terminator :: "char \<Rightarrow> bool" where
  "line_terminator c = (c = CHR 0x0A \<or> c = CHR 0x0D)"

fun starts_with :: "string \<Rightarrow> string \<Rightarrow> bool" where
  "starts_with [] s = True"
| "starts_with (p # ps) [] = False"
| "starts_with (p # ps) (c # cs) = (p = c \<and> starts_with ps cs)"

fun backtrack :: "string \<Rightarrow> string \<Rightarrow> nat \<Rightarrow> string option" where
  "backtrack S rest 0 = (if starts_with S rest then Some [] else None)"
| "backtrack S rest (Suc k) =
     (if starts_with S (drop (Suc k) rest) then Some (take (Suc k) rest)
      else backtrack S rest k)"

definition match_here :: "string \<Rightarrow> string \<Rightarrow> string \<Rightarrow> string option" where
  "match_here P S s =
     (if starts_with P s
      then (let rest = drop (length P) s
            in backtrack S rest (length (takeWhile (\<lambda>c. \<not> line_terminator c) rest)))
      else None)"

fun regex_group1 :: "string \<Rightarrow> string \<Rightarrow> string \<Rightarrow> string option" where
  "regex_group1 P S [] = match_here P S []"
| "regex_group1 P S (c # cs) =
     (case match_here P S (c # cs) of
        Some g \<Rightarrow> Some g
      | None \<Rightarrow> regex_group1 P S cs)"

definition frmLoginToken_pattern :: "string \<Rightarrow> string option" where
  \<open>frmLoginToken_pattern html =
     regex_group1 ''getObj("Frm_Logintoken").value = "'' ''";'' html\<close>

definition sessionToken_pattern :: "string \<Rightarrow> string option" where
  \<open>sessionToken_pattern html = regex_group1 ''var session_token = "'' ''";'' html\<close>

subsection \<open>The four steps\<close>

definition base_url :: "IModemUtilOptions \<Rightarrow> UrlObject" where
  "base_url options =
     \<lparr> url_protocol = protocol options, url_hostname = ip options,
       url_port = port options, url_pathname = None, url_search = None \<rparr>"

definition getFrmLoginToken_request :: "IModemUtilOptions \<Rightarrow> Request" where
  "getFrmLoginToken_request options =
     \<lparr> req_url = base_url options, req_method = GET, req_body = None, req_timeout = None \<rparr>"

definition getFrmLoginToken ::
  "(Request \<Rightarrow> Response) \<Rightarrow> IModemUtilOptions \<Rightarrow> error + string" where
  "getFrmLoginToken fetch options =
     (case fetch (getFrmLoginToken_request options) of
        Rejected \<Rightarrow> Inl FetchError
      | Text html \<Rightarrow>
          if html = [] then Inl (Error ''Get Frm_Logintoken failed: empty response.'')
          else (case frmLoginToken_pattern html of
                  None \<Rightarrow> Inl TypeError
                | Some frmt \<Rightarrow> Inr frmt))"

definition postLogin_request :: "IModemUtilOptions \<Rightarrow> string \<Rightarrow> Request" where
  "postLogin_request options frmLoginToken =
     \<lparr> req_url = base_url options, req_method = POST,
       req_body = Some
         [(''frashnum'', ''''), (''action'', ''login''), (''Frm_Logintoken'', frmLoginToken),
          (''username'', username options), (''logincode'', password options),
          (''textpwd'', ''''), (''ieversion'', ''1'')],
       req_timeout = None \<rparr>"

text \<open>\<^verbatim>\<open>postLogin\<close> awaits the \<^verbatim>\<open>fetch\<close> and never reads the response.\<close>

definition postLogin ::
  "(Request \<Rightarrow> Response) \<Rightarrow> IModemUtilOptions \<Rightarrow> string \<Rightarrow> error + unit" where
  "postLogin fetch options frmLoginToken =
     (case fetch (postLogin_request options frmLoginToken) of
        Rejected \<Rightarrow> Inl FetchError
      | Text html \<Rightarrow> Inr ())"

definition getSessionToken_request :: "IModemUtilOptions \<Rightarrow> Request" where
  "getSessionToken_request options =
     \<lparr> req_url = (base_url options)\<lparr> url_pathname := Some ''/web/cmcc/gch/template_user.gch'' \<rparr>,
       req_method = GET, req_body = None, req_timeout = None \<rparr>"

definition getSessionToken ::
  "(Request \<Rightarrow> Response) \<Rightarrow> IModemUtilOptions \<Rightarrow> error + string" where
  "getSessionToken fetch options =
     (case fetch (getSessionToken_request options) of
        Rejected \<Rightarrow> Inl FetchError
      | Text html \<Rightarrow>
          if html = [] then Inl (Error ''Get session_token failed: empty response.'')
          else (case sessionToken_pattern html of
                  None \<Rightarrow> Inl TypeError
                | Some token \<Rightarrow> Inr token))"

definition postRestart_request :: "IModemUtilOptions \<Rightarrow> string \<Rightarrow> Request" where
  "postRestart_request options sessionToken =
     \<lparr> req_url = (base_url options)
         \<lparr> url_pathname := Some ''/web/cmcc/gch/getpage.gch'',
           url_search := Some [(''pid'', ''1002''),
                               (''nextpage'', ''web/cmcc/gch/iot_advance_setting_t.gch'')] \<rparr>,
       req_method = POST,
       req_body = Some
         [(''IF_ACTION'', ''devrestart''), (''IF_ERRORSTR'', ''SUCC''),
          (''IF_ERRORPARAM'', ''SUCC''), (''IF_ERRORTYPE'', ''-1311313888''),
          (''flag'', ''1''), (''_SESSION_TOKEN_USER'', sessionToken)],
       req_timeout = Some 1000 \<rparr>"

text \<open>The \<^verbatim>\<open>try { await fetch(...) } catch {}\<close> of \<^verbatim>\<open>postRestart\<close>: both branches return.\<close>

definition postRestart ::
  "(Request \<Rightarrow> Response) \<Rightarrow> IModemUtilOptions \<Rightarrow> string \<Rightarrow> error + unit" where
  "postRestart fetch options sessionToken =
     (case fetch (postRestart_request options sessionToken) of
        Rejected \<Rightarrow> Inr ()
      | Text html \<Rightarrow> Inr ())"

definition restart :: "(Request \<Rightarrow> Response) \<Rightarrow> IModemUtilOptions \<Rightarrow> error + unit" where
  "restart fetch options =
     (case getFrmLoginToken fetch options of
        Inl e \<Rightarrow> Inl e
      | Inr frmLoginToken \<Rightarrow>
          (case postLogin fetch options frmLoginToken of
             Inl e \<Rightarrow> Inl e
           | Inr u \<Rightarrow>
               (case getSessionToken fetch options of
                  Inl e \<Rightarrow> Inl e
                | Inr sessionToken \<Rightarrow> postRestart fetch options sessionToken)))"

section \<open>Numbers and dates of the host language\<close>

text \<open>
  The counters, thresholds and millisecond values of the program are integers here. A
  \<^verbatim>\<open>number\<close> that may be \<^verbatim>\<open>NaN\<close> is an \<open>int option\<close>, with \<open>None\<close> for \<^verbatim>\<open>NaN\<close>.

  A \<^verbatim>\<open>Date\<close> is its time value in milliseconds, or the invalid date. The getters and
  setters are ECMAScript's \<^verbatim>\<open>HourFromTime\<close>, \<^verbatim>\<open>MakeTime\<close>, \<^verbatim>\<open>MakeDate\<close> on local time; the
  host's zone is taken to have a constant offset (no daylight-saving shift), so that
  local time is the time value itself, counted from a local midnight. \<^verbatim>\<open>TimeClip\<close> (dates
  beyond 8.64e15 ms) is left out.
\<close>

type_synonym number = "int option"

datatype date = Invalid_Date | Date int

abbreviation (input) msPerDay :: int where "msPerDay \<equiv> 86400000"
abbreviation (input) msPerHour :: int where "msPerHour \<equiv> 3600000"
abbreviation (input) msPerMinute :: int where "msPerMinute \<equiv> 60000"
abbreviation (input) msPerSecond :: int where "msPerSecond \<equiv> 1000"

definition Day :: "int \<Rightarrow> int" where
  "Day t = t div msPerDay"

definition HourFromTime :: "int \<Rightarrow> int" where
  "HourFromTime t = (t div msPerHour) mod 24"

definition MinFromTime :: "int \<Rightarrow> int" where
  "MinFromTime t = (t div msPerMinute) mod 60"

definition SecFromTime :: "int \<Rightarrow> int" where
  "SecFromTime t = (t div msPerSecond) mod 60"

definition msFromTime :: "int \<Rightarrow> int" where
  "msFromTime t = t mod msPerSecond"

definition MakeTime :: "int \<Rightarrow> int \<Rightarrow> int \<Rightarrow> int \<Rightarrow> int" where
  "MakeTime h m s ms = h * msPerHour + m * msPerMinute + s * msPerSecond + ms"

definition MakeDate :: "int \<Rightarrow> int \<Rightarrow> int" where
  "MakeDate day time = day * msPerDay + time"

fun getTime :: "date \<Rightarrow> number" where
  "getTime Invalid_Date = None"
| "getTime (Date t) = Some t"

fun getHours :: "date \<Rightarrow> number" where
  "getHours Invalid_Date = None"
| "getHours (Date t) = Some (HourFromTime t)"

fun getMinutes :: "date \<Rightarrow> number" where
  "getMinutes Invalid_Date = None"
| "getMinutes (Date t) = Some (MinFromTime t)"

fun getSeconds :: "date \<Rightarrow> number" where
  "getSeconds Invalid_Date = None"
| "getSeconds (Date t) = Some (SecFromTime t)"

fun setHours :: "date \<Rightarrow> number \<Rightarrow> date" where
  "setHours (Date t) (Some h) =
     Date (MakeDate (Day t) (MakeTime h (MinFromTime t) (SecFromTime t) (msFromTime t)))"
| "setHours d n = Invalid_Date"

fun setMinutes :: "date \<Rightarrow> number \<Rightarrow> date" where
  "setMinutes (Date t) (Some m) =
     Date (MakeDate (Day t) (MakeTime (HourFromTime t) m (SecFromTime t) (msFromTime t)))"
| "setMinutes d n = Invalid_Date"

fun setSeconds :: "date \<Rightarrow> number \<Rightarrow> date" where
  "setSeconds (Date t) (Some s) =
     Date (MakeDate (Day t) (MakeTime (HourFromTime t) (MinFromTime t) s (msFromTime t)))"
| "setSeconds d n = Invalid_Date"

fun setMilliseconds :: "date \<Rightarrow> number \<Rightarrow> date" where
  "setMilliseconds (Date t) (Some ms) =
     Date (MakeDate (Day t) (MakeTime (HourFromTime t) (MinFromTime t) (SecFromTime t) ms))"
| "setMilliseconds d n = Invalid_Date"

text \<open>
  The source uses the day of the month only as \<^verbatim>\<open>d.setDate(d.getDate() + 1)\<close>.
  \<^verbatim>\<open>setDate\<close> places the date \<^verbatim>\<open>dt - 1\<close> days after the first of the month (\<^verbatim>\<open>MakeDay\<close>), with
  no wrap at the month's end, so the model numbers the days from the epoch instead of
  from the first of the month: the difference between the two numberings cancels.
\<close>

fun getDate :: "date \<Rightarrow> number" where
  "getDate Invalid_Date = None"
| "getDate (Date t) = Some (Day t)"

fun setDate :: "date \<Rightarrow> number \<Rightarrow> date" where
  "setDate (Date t) (Some dt) = Date (MakeDate dt (t mod msPerDay))"
| "setDate d n = Invalid_Date"

fun num_plus :: "number \<Rightarrow> number \<Rightarrow> number" where
  "num_plus (Some a) (Some b) = Some (a + b)"
| "num_plus a b = None"

fun num_minus :: "number \<Rightarrow> number \<Rightarrow> number" where
  "num_minus (Some a) (Some b) = Some (a - b)"
| "num_minus a b = None"

text \<open>A comparison with \<^verbatim>\<open>NaN\<close> on either side is false.\<close>

fun num_le :: "number \<Rightarrow> number \<Rightarrow> bool" where
  "num_le (Some a) (Some b) = (a \<le> b)"
| "num_le a b = False"

subsection \<open>\<^verbatim>\<open>time.split(":").map((v) => Number.parseInt(v, 10))\<close>\<close>

fun split :: "char \<Rightarrow> string \<Rightarrow> string list" where
  "split sep [] = [[]]"
| "split sep (c # cs) =
     (if c = sep then [] # split sep cs
      else (case split sep cs of
              [] \<Rightarrow> [[c]]
            | w # ws \<Rightarrow> (c # w) # ws))"

definition StrWhiteSpaceChar :: "char \<Rightarrow> bool" where
  "StrWhiteSpaceChar c =
     (c = CHR 0x09 \<or> c = CHR 0x0A \<or> c = CHR 0x0B \<or> c = CHR 0x0C \<or> c = CHR 0x0D \<or> c = CHR 0x20)"

definition is_digit :: "char \<Rightarrow> bool" where
  "is_digit c = (48 \<le> (of_char c :: nat) \<and> (of_char c :: nat) \<le> 57)"

definition digit_of :: "char \<Rightarrow> int" where
  "digit_of c = int (of_char c) - 48"

definition digits_value :: "string \<Rightarrow> int" where
  "digits_value ds = foldl (\<lambda>n c. 10 * n + digit_of c) 0 ds"

text \<open>
  \<^verbatim>\<open>parseInt(v, 10)\<close>: leading white space is skipped, one sign is read, then the longest
  run of decimal digits; with no digit the result is \<^verbatim>\<open>NaN\<close>.
\<close>

definition parseInt :: "string \<Rightarrow> number" where
  "parseInt v =
     (let s = dropWhile StrWhiteSpaceChar v;
          neg = (s \<noteq> [] \<and> hd s = CHR ''-'');
          s' = (if s \<noteq> [] \<and> (hd s = CHR ''-'' \<or> hd s = CHR ''+'') then tl s else s);
          ds = takeWhile is_digit s'
      in if ds = [] then None
         else Some (if neg then - digits_value ds else digits_value ds))"

text \<open>
  \<^verbatim>\<open>parseDate\<close>: the destructuring \<^verbatim>\<open>[hour, minute, second]\<close> gives \<^verbatim>\<open>undefined\<close> for a
  missing element; \<^verbatim>\<open>setHours(undefined)\<close> is \<^verbatim>\<open>setHours(NaN)\<close>, and only \<^verbatim>\<open>second\<close> is
  tested against \<^verbatim>\<open>undefined\<close>. \<open>now\<close> is the time value of \<^verbatim>\<open>new Date()\<close>.
\<close>

definition element :: "number list \<Rightarrow> nat \<Rightarrow> number" where
  "element xs i = (if i < length xs then xs ! i else None)"

definition parseDate :: "string \<Rightarrow> int \<Rightarrow> date" where
  "parseDate time now =
     (let parts = map parseInt (split CHR '':'' time);
          hour = element parts 0;
          minute = element parts 1;
          d1 = setHours (Date now) hour;
          d2 = setMinutes d1 minute;
          d3 = (if 2 < length parts then setSeconds d2 (parts ! 2)
                else setSeconds d2 (Some 0))
      in setMilliseconds d3 (Some 0))"

section \<open>App: probing, scoring and restart orchestration\<close>

record IAppConfig = IModemUtilOptions +
  checkingInterval :: int
  checkingUrl :: string
  expectedDelay :: int
  maxBadCount :: int
  badIncrease :: int
  goodReduce :: int
  restartEveryDayTime :: "string option"
  startDelay :: "int option"

text \<open>
  The defaults of the constructor. The fields read from the configuration file replace
  them (\<^verbatim>\<open>...this.readConfig()\<close>); reading and merging the file is left to the caller, who
  hands the merged configuration to \<open>App_constructor\<close>.
\<close>

definition default_config :: IAppConfig where
  "default_config =
     \<lparr> username = ''user'', password = ''000000'', ip = ''192.168.1.1'',
       port = None, protocol = None,
       checkingInterval = 2000, checkingUrl = ''https://www.baidu.com'',
       expectedDelay = 800, maxBadCount = 10, badIncrease = 2, goodReduce = 1,
       restartEveryDayTime = None, startDelay = None \<rparr>"

type_synonym Timeout = unit

record App =
  config :: IAppConfig
  modemUtil :: IModemUtilOptions
  restartEveryDayDate :: "date option"
  currentBadCount :: int
  checkingIntervalHandler :: "Timeout option"
  isRestarting :: bool

text \<open>
  \<open>now\<close> is the clock read by \<^verbatim>\<open>new Date()\<close> inside \<^verbatim>\<open>parseDate\<close>. An empty
  \<^verbatim>\<open>restartEveryDayTime\<close> is falsy, like a missing one.
\<close>

definition App_constructor :: "IAppConfig \<Rightarrow> int \<Rightarrow> App" where
  "App_constructor cfg now =
     \<lparr> config = cfg,
       modemUtil = ModemUtil_constructor
         \<lparr> username = username cfg, password = password cfg, ip = ip cfg,
           port = port cfg, protocol = protocol cfg \<rparr>,
       restartEveryDayDate =
         (case restartEveryDayTime cfg of
            None \<Rightarrow> None
          | Some time \<Rightarrow> if time = [] then None else Some (parseDate time now)),
       currentBadCount = 0,
       checkingIntervalHandler = None,
       isRestarting = False \<rparr>"

subsection \<open>What the program does to the outside\<close>

datatype delay = Finite int | POSITIVE_INFINITY

datatype console =
    Checking_restarting_status
  | Checked_still_restarting
  | Bad_delay delay int int
  | Restart_successfully
  | Good_delay delay int
  | Checking_stop
  | Checking_start
  | Restarting
  | Restart_failed error
  | Next_restart_time date

datatype effect =
    Log console
  | ClearInterval
  | SetInterval int
  | Call_modemUtil_restart
  | SetTimeout int

subsection \<open>The probe\<close>

text \<open>
  \<^verbatim>\<open>checkingDelay\<close>: \<open>startTime\<close> and \<open>endTime\<close> are the two readings of \<^verbatim>\<open>Date.now()\<close>;
  \<open>endTime = None\<close> is the \<^verbatim>\<open>fetch\<close> that threw.
\<close>

fun checkingDelay :: "int \<Rightarrow> int option \<Rightarrow> delay" where
  "checkingDelay startTime None = POSITIVE_INFINITY"
| "checkingDelay startTime (Some endTime) = Finite (endTime - startTime)"

fun delay_gt :: "delay \<Rightarrow> int \<Rightarrow> bool" where
  "delay_gt POSITIVE_INFINITY x = True"
| "delay_gt (Finite d) x = (x < d)"

subsection \<open>Starting and stopping the polling timer\<close>

definition stopChecking :: "App \<Rightarrow> App \<times> effect list" where
  "stopChecking a =
     (if checkingIntervalHandler a \<noteq> None
      then (a\<lparr> checkingIntervalHandler := None, currentBadCount := 0 \<rparr>,
            [ClearInterval, Log Checking_stop])
      else (a, []))"

definition startChecking :: "App \<Rightarrow> App \<times> effect list" where
  "startChecking a =
     (if checkingIntervalHandler a \<noteq> None then (a, [])
      else (a\<lparr> checkingIntervalHandler := Some () \<rparr>,
            [Log Checking_start, SetInterval (checkingInterval (config a))]))"

subsection \<open>restartModem\<close>

text \<open>
  \<^verbatim>\<open>restartModem\<close> is \<^verbatim>\<open>async\<close> with one \<^verbatim>\<open>await\<close>. \<open>restartModem_begin\<close> is the part that
  runs at the call: it either returns at once (the promise is \<open>Settled\<close>) or sets the
  flag and calls \<^verbatim>\<open>this.modemUtil.restart()\<close>, whose promise is \<open>Pending\<close>.
  \<open>restartModem_resume\<close> is the part that runs when that promise settles, with the
  outcome of \<open>restart\<close>: \<open>Inl e\<close> enters the \<^verbatim>\<open>catch\<close>.
\<close>

datatype promise = Settled | Pending

definition restartModem_begin :: "App \<Rightarrow> App \<times> effect list \<times> promise" where
  "restartModem_begin a =
     (if isRestarting a then (a, [], Settled)
      else (a\<lparr> isRestarting := True \<rparr>, [Log Restarting, Call_modemUtil_restart], Pending))"

definition restartModem_resume :: "App \<Rightarrow> error + unit \<Rightarrow> App \<times> effect list" where
  "restartModem_resume a outcome =
     (case outcome of
        Inl e \<Rightarrow> (a\<lparr> isRestarting := False \<rparr>, [Log (Restart_failed e)])
      | Inr u \<Rightarrow> (a, []))"

text \<open>
  \<^verbatim>\<open>this.restartModem().then(() => { this.startChecking(); })\<close>, as \<^verbatim>\<open>onBadChecked\<close> and
  the daily timer both write it. When \<^verbatim>\<open>restartModem\<close> returned at once, the callback runs
  as a microtask at the end of the same turn of the event loop (\<open>then_startChecking\<close>);
  when the modem's promise is pending, it runs in the turn in which that promise settles
  (\<open>restart_settled\<close>).
\<close>

definition then_startChecking :: "promise \<Rightarrow> App \<Rightarrow> App \<times> effect list" where
  "then_startChecking p a = (case p of Settled \<Rightarrow> startChecking a | Pending \<Rightarrow> (a, []))"

definition restart_settled :: "App \<Rightarrow> error + unit \<Rightarrow> App \<times> effect list" where
  "restart_settled a outcome =
     (let (a1, e1) = restartModem_resume a outcome;
          (a2, e2) = startChecking a1
      in (a2, e1 @ e2))"

definition onBadChecked :: "App \<Rightarrow> App \<times> effect list" where
  "onBadChecked a =
     (let (a1, e1) = stopChecking a;
          (a2, e2, p) = restartModem_begin a1;
          (a3, e3) = then_startChecking p a2
      in (a3, e1 @ e2 @ e3))"

subsection \<open>The interval callback of \<^verbatim>\<open>checking\<close>\<close>

text \<open>
  The callback is \<^verbatim>\<open>async\<close> with one \<^verbatim>\<open>await\<close>, on \<^verbatim>\<open>checkingDelay()\<close>. \<open>checking_begin\<close> is
  what runs when the interval fires, \<open>checking_resume\<close> what runs when the probe has
  settled, with the delay it measured.
\<close>

definition checking_begin :: "App \<Rightarrow> effect list" where
  "checking_begin a = (if isRestarting a then [Log Checking_restarting_status] else [])"

definition checking_resume :: "App \<Rightarrow> delay \<Rightarrow> App \<times> effect list" where
  "checking_resume a delay =
     (if delay_gt delay (expectedDelay (config a)) then
        (if isRestarting a then (a, [Log Checked_still_restarting])
         else
           (let a1 = a\<lparr> currentBadCount := currentBadCount a + badIncrease (config a) \<rparr>;
                e1 = [Log (Bad_delay delay (expectedDelay (config a1)) (currentBadCount a1))]
            in if maxBadCount (config a1) \<le> currentBadCount a1
               then (let (a2, e2) = onBadChecked (a1\<lparr> currentBadCount := 0 \<rparr>)
                     in (a2, e1 @ e2))
               else (a1, e1)))
      else
        (let (a1, e1) =
               (if isRestarting a
                then (a\<lparr> isRestarting := False \<rparr>, [Log Restart_successfully])
                else (a, []));
             (a2, e2) =
               (if 0 < currentBadCount a1
                then (let a' = a1\<lparr> currentBadCount :=
                                      currentBadCount a1 - goodReduce (config a1) \<rparr>
                      in (a', [Log (Good_delay delay (currentBadCount a'))]))
                else (a1, []))
         in (a2, e1 @ e2)))"

subsection \<open>The daily timer\<close>

text \<open>
  \<^verbatim>\<open>setTimeout\<close> replaces a delay that is \<^verbatim>\<open>NaN\<close>, below 1 or above \<^verbatim>\<open>2^31 - 1\<close> by 1.
\<close>

definition timer_delay :: "number \<Rightarrow> int" where
  "timer_delay n =
     (case n of
        None \<Rightarrow> 1
      | Some d \<Rightarrow> if 1 \<le> d \<and> d \<le> 2147483647 then d else 1)"

definition nextRestartTime :: "date \<Rightarrow> int \<Rightarrow> date" where
  "nextRestartTime d now =
     (let n1 = setHours (Date now) (getHours d);
          n2 = setMinutes n1 (getMinutes d);
          n3 = setSeconds n2 (getSeconds d);
          n4 = setMilliseconds n3 (Some 0)
      in if num_le (getTime n4) (getTime (Date now))
         then setDate n4 (num_plus (getDate n4) (Some 1))
         else n4)"

text \<open>
  \<^verbatim>\<open>registerRestartEveryDay\<close> at the instant \<open>now\<close> (\<^verbatim>\<open>Date.now()\<close>): the delay handed to
  \<^verbatim>\<open>setTimeout\<close>, or \<open>None\<close> when no daily time is configured and no timer is armed.
\<close>

definition registerRestartEveryDay :: "App \<Rightarrow> int \<Rightarrow> int option \<times> effect list" where
  "registerRestartEveryDay a now =
     (case restartEveryDayDate a of
        None \<Rightarrow> (None, [])
      | Some d \<Rightarrow>
          (let next = nextRestartTime d now;
               diff = num_minus (getTime next) (getTime (Date now))
           in (Some (timer_delay diff),
               [Log (Next_restart_time next), SetTimeout (timer_delay diff)])))"

text \<open>
  The callback of the daily timer, firing at \<open>now\<close>: \<^verbatim>\<open>stopChecking\<close>, then
  \<^verbatim>\<open>restartModem().then(startChecking)\<close>, then \<^verbatim>\<open>registerRestartEveryDay()\<close>. The last call is
  made in the same turn, before any promise settles; it reads only the clock and
  \<^verbatim>\<open>restartEveryDayDate\<close>.
\<close>

definition daily_callback :: "App \<Rightarrow> int \<Rightarrow> App \<times> int option \<times> effect list" where
  "daily_callback a now =
     (let (a1, e1) = stopChecking a;
          (a2, e2, p) = restartModem_begin a1;
          (t, e3) = registerRestartEveryDay a2 now;
          (a3, e4) = then_startChecking p a2
      in (a3, t, e1 @ e2 @ e3 @ e4))"

section \<open>The event loop\<close>

text \<open>
  One turn of the event loop runs to completion before the next, so the program is a
  transition system over the \<open>App\<close> fields and what is outstanding: the probes that were
  started and have not settled, the calls of \<^verbatim>\<open>modemUtil.restart()\<close> that have not settled,
  and the instant for which the daily timer is armed.
\<close>

record System =
  app :: App
  pendingProbes :: nat
  pendingRestarts :: nat
  dailyTimer :: "int option"

datatype event =
    IntervalFires
  | ProbeSettles int "int option"
  | DailyTimerFires int
  | RestartSettles "error + unit"

definition calls_restart :: "effect list \<Rightarrow> nat" where
  "calls_restart es = length (filter (\<lambda>e. e = Call_modemUtil_restart) es)"

text \<open>
  \<open>step\<close> is \<open>None\<close> for an event that cannot happen in the state: the interval fires only
  while its handle is set, a probe or a restart settles only when one is outstanding,
  the daily timer fires only when armed and not before its instant.
\<close>

fun step :: "event \<Rightarrow> System \<Rightarrow> (System \<times> effect list) option" where
  "step IntervalFires s =
     (if checkingIntervalHandler (app s) \<noteq> None
      then Some (s\<lparr> pendingProbes := Suc (pendingProbes s) \<rparr>, checking_begin (app s))
      else None)"
| "step (ProbeSettles startTime endTime) s =
     (if 0 < pendingProbes s
      then (let (a, es) = checking_resume (app s) (checkingDelay startTime endTime)
            in Some (s\<lparr> app := a, pendingProbes := pendingProbes s - 1,
                        pendingRestarts := pendingRestarts s + calls_restart es \<rparr>, es))
      else None)"
| "step (DailyTimerFires now) s =
     (case dailyTimer s of
        None \<Rightarrow> None
      | Some due \<Rightarrow>
          if now < due then None
          else (let (a, t, es) = daily_callback (app s) now
                in Some (s\<lparr> app := a,
                            pendingRestarts := pendingRestarts s + calls_restart es,
                            dailyTimer := map_option (\<lambda>d. now + d) t \<rparr>, es)))"
| "step (RestartSettles outcome) s =
     (if 0 < pendingRestarts s
      then (let (a, es) = restart_settled (app s) outcome
            in Some (s\<lparr> app := a, pendingRestarts := pendingRestarts s - 1 \<rparr>, es))
      else None)"

text \<open>A run of events, with everything the program did to the outside, in order.\<close>

fun steps :: "event list \<Rightarrow> System \<Rightarrow> (System \<times> effect list) option" where
  "steps [] s = Some (s, [])"
| "steps (e # es) s =
     (case step e s of
        None \<Rightarrow> None
      | Some (s1, out1) \<Rightarrow>
          (case steps es s1 of
             None \<Rightarrow> None
           | Some (s2, out2) \<Rightarrow> Some (s2, out1 @ out2)))"

text \<open>
  \<^verbatim>\<open>run\<close> at the instant \<open>now\<close> at which \<^verbatim>\<open>startChecking\<close> and \<^verbatim>\<open>registerRestartEveryDay\<close> are
  called (at once, or together after \<^verbatim>\<open>startDelay\<close>).
\<close>

definition run :: "App \<Rightarrow> int \<Rightarrow> System" where
  "run a now =
     (let (a1, e1) = startChecking a;
          (t, e2) = registerRestartEveryDay a1 now
      in \<lparr> app = a1, pendingProbes = 0, pendingRestarts = 0,
           dailyTimer = map_option (\<lambda>d. now + d) t \<rparr>)"

section \<open>Inputs used by the theorems\<close>

text \<open>The milliseconds after local midnight at the hour, minute and second of \<open>c\<close>.\<close>

definition time_of_day :: "int \<Rightarrow> int" where
  "time_of_day c = MakeTime (HourFromTime c) (MinFromTime c) (SecFromTime c) 0"

text \<open>Configurations: the defaults with one field set, as a configuration file would.\<close>

definition custom_port_config :: IAppConfig where
  "custom_port_config = default_config\<lparr> port := Some 8080 \<rparr>"

definition reduce_by_three_config :: IAppConfig where
  "reduce_by_three_config = default_config\<lparr> goodReduce := 3 \<rparr>"

definition daily_0300_config :: IAppConfig where
  "daily_0300_config = default_config\<lparr> restartEveryDayTime := Some ''03:00'' \<rparr>"

text \<open>
  A modem whose pages carry both tokens, which answers the login with an empty body and
  drops the connection on the restart command.
\<close>

definition modem_login_page :: string where
  \<open>modem_login_page = ''<script>getObj("Frm_Logintoken").value = "7";</script>''\<close>

definition modem_user_page :: string where
  \<open>modem_user_page = ''<script>var session_token = "abc";</script>''\<close>

definition modem_silent_login :: "Request \<Rightarrow> Response" where
  "modem_silent_login r =
     (if req_method r = POST
      then (if url_pathname (req_url r) = None then Text [] else Rejected)
      else (if url_pathname (req_url r) = None then Text modem_login_page
            else Text modem_user_page))"

text \<open>A modem that cannot be reached at all.\<close>

definition modem_unreachable :: "Request \<Rightarrow> Response" where
  "modem_unreachable r = Rejected"

text \<open>
  Runs of the event loop. The two numbers of \<open>ProbeSettles\<close> are the clock at the start
  and at the end of the probe, so \<open>ProbeSettles 2000 (Some 4000)\<close> measures 2000 ms.
\<close>

definition five_bad_samples :: "event list" where
  "five_bad_samples =
     [IntervalFires, ProbeSettles 2000 (Some 4000),
      IntervalFires, ProbeSettles 4000 (Some 6000),
      IntervalFires, ProbeSettles 6000 (Some 8000),
      IntervalFires, ProbeSettles 8000 (Some 10000),
      IntervalFires, ProbeSettles 10000 (Some 12000)]"

definition bad_then_good_sample :: "event list" where
  "bad_then_good_sample =
     [IntervalFires, ProbeSettles 2000 (Some 4000),
      IntervalFires, ProbeSettles 4000 (Some 4100)]"

text \<open>
  Five bad samples just before 03:00:00 (10800000 ms after midnight) start a restart; its
  promise stays pending (the modem accepts the connection and does not answer). The daily
  timer fires at 03:00:00, a good sample follows, then five bad ones.
\<close>

definition overlapping_restarts_trace :: "event list" where
  "overlapping_restarts_trace =
     [IntervalFires, ProbeSettles 10790000 (Some 10791500),
      IntervalFires, ProbeSettles 10792000 (Some 10793500),
      IntervalFires, ProbeSettles 10794000 (Some 10795500),
      IntervalFires, ProbeSettles 10796000 (Some 10797500),
      IntervalFires, ProbeSettles 10798000 (Some 10799500),
      DailyTimerFires 10800000,
      IntervalFires, ProbeSettles 10802000 (Some 10802100),
      IntervalFires, ProbeSettles 10804000 (Some 10805500),
      IntervalFires, ProbeSettles 10806000 (Some 10807500),
      IntervalFires, ProbeSettles 10808000 (Some 10809500),
      IntervalFires, ProbeSettles 10810000 (Some 10811500),
      IntervalFires, ProbeSettles 10812000 (Some 10813500)]"

text \<open>
  Four bad samples, then three probes outstanding at once (started at 10788000, 10790000
  and 10792000). The first to settle is bad and starts a restart; the other two settle
  after \<^verbatim>\<open>clearInterval\<close>, a good one and then a bad one. The daily timer fires at 03:00:00
  while the first restart is pending; that restart then succeeds and polling resumes.
\<close>

definition straggler_probes_trace :: "event list" where
  "straggler_probes_trace =
     [IntervalFires, ProbeSettles 10780000 (Some 10781500),
      IntervalFires, ProbeSettles 10782000 (Some 10783500),
      IntervalFires, ProbeSettles 10784000 (Some 10785500),
      IntervalFires, ProbeSettles 10786000 (Some 10787500),
      IntervalFires, IntervalFires, IntervalFires,
      ProbeSettles 10788000 (Some 10792100),
      ProbeSettles 10792000 (Some 10792200),
      ProbeSettles 10790000 (Some 10792300),
      DailyTimerFires 10800000,
      RestartSettles (Inr ()),
      IntervalFires]"

text \<open>
  Four bad samples, then two probes outstanding at once (started at 10000 and 12000).
  The older one settles bad and starts a restart; the younger one settles good after
  \<^verbatim>\<open>clearInterval\<close>, while the restart is pending. Then the restart succeeds.
\<close>

definition straggler_good_probe_trace :: "event list" where
  "straggler_good_probe_trace =
     [IntervalFires, ProbeSettles 2000 (Some 4000),
      IntervalFires, ProbeSettles 4000 (Some 6000),
      IntervalFires, ProbeSettles 6000 (Some 8000),
      IntervalFires, ProbeSettles 8000 (Some 10000),
      IntervalFires, IntervalFires,
      ProbeSettles 10000 (Some 12100),
      ProbeSettles 12000 (Some 12200),
      RestartSettles (Inr ())]"

section \<open>ModemUtil: what makes \<^verbatim>\<open>restart()\<close> fail\<close>

lemma postRestart_absorbs: "postRestart fetch options sessionToken = Inr ()"
  by (simp add: postRestart_def split: Response.split)

lemma frmLoginToken_of_login_page: "frmLoginToken_pattern modem_login_page = Some ''7''"
  by (simp add: frmLoginToken_pattern_def modem_login_page_def match_here_def
      line_terminator_def)

lemma sessionToken_of_user_page: "sessionToken_pattern modem_user_page = Some ''abc''"
  by (simp add: sessionToken_pattern_def modem_user_page_def match_here_def
      line_terminator_def)

lemma restart_silent_login:
  "restart modem_silent_login (modemUtil (App_constructor default_config 0)) = Inr ()"
  by code_simp

lemma restart_unreachable: "restart modem_unreachable options = Inl FetchError"
  by (simp add: restart_def getFrmLoginToken_def modem_unreachable_def)

text \<open>
  C7, as the claim states it, fails on the login step. The claim: a timeout or connection
  error on the final restart command is absorbed, while any earlier step (login token,
  login, session token) that returns an unexpected or empty response or hits a network
  failure makes \<^verbatim>\<open>restart()\<close> fail. Here the login request is answered with an empty body
  (and the restart command is rejected), and \<^verbatim>\<open>restart()\<close> succeeds: \<^verbatim>\<open>postLogin\<close> never reads
  its response.
\<close>

theorem login_response_is_not_inspected:
  "modem_silent_login
       (postLogin_request (modemUtil (App_constructor default_config 0)) ''7'') = Text []
   \<and> modem_silent_login
       (postRestart_request (modemUtil (App_constructor default_config 0)) ''abc'') = Rejected
   \<and> getFrmLoginToken modem_silent_login (modemUtil (App_constructor default_config 0))
       = Inr ''7''
   \<and> restart modem_silent_login (modemUtil (App_constructor default_config 0)) = Inr ()"
  by code_simp

text \<open>
  C7, amended. The restart command is sent with a timeout of 1000 ms and \<^verbatim>\<open>postRestart\<close>
  returns normally whatever comes back, a rejection included. \<^verbatim>\<open>restart()\<close> succeeds exactly
  when the login-token page is fetched, is not empty and carries the token pattern, the
  login request is not rejected (its body is not looked at), and the session-token page
  is fetched, is not empty and carries its pattern; in every other case it fails. What the
  restart command returns has no part in the outcome.
\<close>

theorem restart_outcome:
  "req_timeout (postRestart_request options sessionToken) = Some 1000
   \<and> postRestart fetch options sessionToken = Inr ()
   \<and> (restart fetch options = Inr () \<longleftrightarrow>
        (\<exists>h1 t1 h2 h3 t3.
           fetch (getFrmLoginToken_request options) = Text h1 \<and> h1 \<noteq> []
           \<and> frmLoginToken_pattern h1 = Some t1
           \<and> fetch (postLogin_request options t1) = Text h2
           \<and> fetch (getSessionToken_request options) = Text h3 \<and> h3 \<noteq> []
           \<and> sessionToken_pattern h3 = Some t3))"
proof (intro conjI)
  show "req_timeout (postRestart_request options sessionToken) = Some 1000"
    by (simp add: postRestart_request_def)
  show "postRestart fetch options sessionToken = Inr ()"
    by (rule postRestart_absorbs)
  show "restart fetch options = Inr () \<longleftrightarrow>
        (\<exists>h1 t1 h2 h3 t3.
           fetch (getFrmLoginToken_request options) = Text h1 \<and> h1 \<noteq> []
           \<and> frmLoginToken_pattern h1 = Some t1
           \<and> fetch (postLogin_request options t1) = Text h2
           \<and> fetch (getSessionToken_request options) = Text h3 \<and> h3 \<noteq> []
           \<and> sessionToken_pattern h3 = Some t3)"
    unfolding restart_def getFrmLoginToken_def postLogin_def getSessionToken_def
    by (auto simp: postRestart_absorbs split: Response.splits option.splits sum.splits)
qed

text \<open>
  C8: the claim is that a port given in the construction options is the port of the URL
  of every step. The constructor overwrites the field: with port 8080 configured and no
  protocol, \<^verbatim>\<open>ModemUtil\<close> holds port 80 and all four requests go to port 80.
\<close>

theorem configured_port_is_overwritten:
  "port custom_port_config = Some 8080
   \<and> port (modemUtil (App_constructor custom_port_config now)) = Some 80
   \<and> protocol (modemUtil (App_constructor custom_port_config now)) = Some Http
   \<and> url_port (req_url (getFrmLoginToken_request
        (modemUtil (App_constructor custom_port_config now)))) = Some 80
   \<and> url_port (req_url (postLogin_request
        (modemUtil (App_constructor custom_port_config now)) frmLoginToken)) = Some 80
   \<and> url_port (req_url (getSessionToken_request
        (modemUtil (App_constructor custom_port_config now)))) = Some 80
   \<and> url_port (req_url (postRestart_request
        (modemUtil (App_constructor custom_port_config now)) sessionToken)) = Some 80"
  by (simp add: custom_port_config_def default_config_def App_constructor_def
      ModemUtil_constructor_def getFrmLoginToken_request_def postLogin_request_def
      getSessionToken_request_def postRestart_request_def base_url_def)

section \<open>App: one probe sample\<close>

lemma no_handle: "(h :: Timeout option) \<noteq> Some () \<longleftrightarrow> h = None"
  by (cases h) auto

lemma failed_probe_is_bad: "delay_gt (checkingDelay startTime None) threshold"
  by simp

lemma bad_sample_below_ceiling:
  assumes "\<not> isRestarting a" and "delay_gt d (expectedDelay (config a))"
    and "currentBadCount a + badIncrease (config a) < maxBadCount (config a)"
  shows "checking_resume a d =
           (a\<lparr> currentBadCount := currentBadCount a + badIncrease (config a) \<rparr>,
            [Log (Bad_delay d (expectedDelay (config a))
                    (currentBadCount a + badIncrease (config a)))])"
  using assms by (simp add: checking_resume_def Let_def)

lemma onBadChecked_fresh:
  assumes "\<not> isRestarting a"
  shows "onBadChecked a =
           (if checkingIntervalHandler a \<noteq> None
            then (a\<lparr> checkingIntervalHandler := None, currentBadCount := 0,
                      isRestarting := True \<rparr>,
                  [ClearInterval, Log Checking_stop, Log Restarting, Call_modemUtil_restart])
            else (a\<lparr> isRestarting := True \<rparr>, [Log Restarting, Call_modemUtil_restart]))"
  using assms
  by (simp add: onBadChecked_def stopChecking_def restartModem_begin_def
      then_startChecking_def)

lemma bad_sample_at_ceiling:
  assumes "\<not> isRestarting a" and "delay_gt d (expectedDelay (config a))"
    and "maxBadCount (config a) \<le> currentBadCount a + badIncrease (config a)"
  shows "currentBadCount (fst (checking_resume a d)) = 0"
    and "isRestarting (fst (checking_resume a d))"
    and "checkingIntervalHandler (fst (checking_resume a d)) = None"
    and "calls_restart (snd (checking_resume a d)) = 1"
    and "hd (snd (checking_resume a d)) =
           Log (Bad_delay d (expectedDelay (config a))
                  (currentBadCount a + badIncrease (config a)))"
  using assms
  by (auto simp: checking_resume_def Let_def onBadChecked_fresh calls_restart_def no_handle)

lemma bad_sample_while_restarting:
  assumes "isRestarting a" and "delay_gt d (expectedDelay (config a))"
  shows "checking_resume a d = (a, [Log Checked_still_restarting])"
  using assms by (simp add: checking_resume_def)

lemma good_sample:
  assumes "\<not> delay_gt d (expectedDelay (config a))"
  shows "\<not> isRestarting (fst (checking_resume a d))"
    and "currentBadCount (fst (checking_resume a d)) =
           (if 0 < currentBadCount a then currentBadCount a - goodReduce (config a)
            else currentBadCount a)"
    and "checkingIntervalHandler (fst (checking_resume a d)) = checkingIntervalHandler a"
    and "calls_restart (snd (checking_resume a d)) = 0"
  using assms by (simp_all add: checking_resume_def Let_def calls_restart_def)

lemma good_sample_idle:
  assumes "\<not> delay_gt d (expectedDelay (config a))" and "currentBadCount a \<le> 0"
  shows "checking_resume a d =
           (if isRestarting a then (a\<lparr> isRestarting := False \<rparr>, [Log Restart_successfully])
            else (a, []))"
  using assms by (simp add: checking_resume_def Let_def)

text \<open>
  The scenario of the specification for a good sample: with \<^verbatim>\<open>goodReduce = 1\<close> and a bad
  count of 3, a sample of 100 ms leaves 2.
\<close>

lemma good_sample_three_to_two:
  "currentBadCount (fst (checking_resume
      ((App_constructor default_config 0)\<lparr> currentBadCount := 3 \<rparr>) (Finite 100))) = 2"
  by (simp add: good_sample App_constructor_def default_config_def)

text \<open>
  The upper half of the range of the bad count holds for every sample, and so does the
  lower half when \<^verbatim>\<open>goodReduce\<close> is at most 1, as in the default configuration.
\<close>

lemma badCount_at_most_ceiling:
  assumes "0 \<le> maxBadCount (config a)" and "0 \<le> goodReduce (config a)"
    and "currentBadCount a \<le> maxBadCount (config a)"
  shows "currentBadCount (fst (checking_resume a d)) \<le> maxBadCount (config a)"
proof (cases "delay_gt d (expectedDelay (config a))")
  case bad: True
  show ?thesis
  proof (cases "isRestarting a")
    case True
    then show ?thesis using bad assms(3) by (simp add: bad_sample_while_restarting)
  next
    case False
    then show ?thesis
      using bad assms(1) bad_sample_below_ceiling[of a d] bad_sample_at_ceiling(1)[of a d]
      by (cases "currentBadCount a + badIncrease (config a) < maxBadCount (config a)") auto
  qed
next
  case False
  then show ?thesis using assms by (simp add: good_sample)
qed

lemma badCount_nonneg_when_reduce_at_most_one:
  assumes "0 \<le> badIncrease (config a)" and "goodReduce (config a) \<le> 1"
    and "0 \<le> currentBadCount a"
  shows "0 \<le> currentBadCount (fst (checking_resume a d))"
proof (cases "delay_gt d (expectedDelay (config a))")
  case bad: True
  show ?thesis
  proof (cases "isRestarting a")
    case True
    then show ?thesis using bad assms(3) by (simp add: bad_sample_while_restarting)
  next
    case False
    then show ?thesis
      using bad assms(1,3) bad_sample_below_ceiling[of a d] bad_sample_at_ceiling(1)[of a d]
      by (cases "currentBadCount a + badIncrease (config a) < maxBadCount (config a)") auto
  qed
next
  case False
  then show ?thesis using assms by (simp add: good_sample)
qed

text \<open>
  C1: the claim is that the bad count stays within 0 and \<^verbatim>\<open>maxBadCount\<close> for every
  sequence of samples, a good sample's decrement being clamped at 0. The decrement is
  guarded by \<^verbatim>\<open>currentBadCount > 0\<close> and then subtracts \<^verbatim>\<open>goodReduce\<close> whole: with
  \<^verbatim>\<open>goodReduce = 3\<close>, one bad sample (count 2) and one good sample leave the count at -1.
\<close>

theorem badCount_goes_negative:
  "map_option (\<lambda>(s, out). currentBadCount (app s))
     (steps bad_then_good_sample (run (App_constructor reduce_by_three_config 0) 0))
   = Some (- 1)"
  by code_simp

text \<open>
  C5: the claim is that a good sample clears \<^verbatim>\<open>isRestarting\<close> and, when the bad count is
  positive, lowers it by \<^verbatim>\<open>goodReduce\<close>, floored at 0. The flag is cleared and the count is
  lowered (\<open>good_sample\<close>, \<open>good_sample_three_to_two\<close>), without the floor: with
  \<^verbatim>\<open>goodReduce = 3\<close> and a bad count of 2, a sample of 100 ms leaves -1 and logs it.
\<close>

theorem good_sample_is_not_floored:
  "checking_resume
     ((App_constructor reduce_by_three_config 0)
        \<lparr> currentBadCount := 2, checkingIntervalHandler := Some () \<rparr>) (Finite 100)
   = ((App_constructor reduce_by_three_config 0)
        \<lparr> currentBadCount := - 1, checkingIntervalHandler := Some () \<rparr>,
      [Log (Good_delay (Finite 100) (- 1))])"
  by (simp add: checking_resume_def Let_def App_constructor_def reduce_by_three_config_def
      default_config_def)

lemma five_bad_samples_run:
  "steps five_bad_samples (run (App_constructor default_config 0) 0) =
     Some (\<lparr> app = (App_constructor default_config 0)\<lparr> isRestarting := True \<rparr>,
             pendingProbes = 0, pendingRestarts = 1, dailyTimer = None \<rparr>,
           [Log (Bad_delay (Finite 2000) 800 2),
            Log (Bad_delay (Finite 2000) 800 4),
            Log (Bad_delay (Finite 2000) 800 6),
            Log (Bad_delay (Finite 2000) 800 8),
            Log (Bad_delay (Finite 2000) 800 10),
            ClearInterval, Log Checking_stop, Log Restarting, Call_modemUtil_restart])"
  by code_simp

text \<open>
  C2: on a sample taken while \<^verbatim>\<open>isRestarting\<close> is false, a delay above \<^verbatim>\<open>expectedDelay\<close>
  adds \<^verbatim>\<open>badIncrease\<close> to the bad count; a failed probe is such a delay for every
  threshold. When the sum is below \<^verbatim>\<open>maxBadCount\<close> nothing else changes. When it reaches
  \<^verbatim>\<open>maxBadCount\<close> the sum is logged, the count is reset to 0, polling is stopped and
  \<^verbatim>\<open>modemUtil.restart()\<close> is called once, with \<^verbatim>\<open>isRestarting\<close> set. With the defaults
  (ceiling 10, increase 2, threshold 800 ms), five samples of 2000 ms log the counts
  2, 4, 6, 8, 10, and the fifth calls the restart and leaves the count at 0.
\<close>

theorem bad_sample_scoring:
  assumes "\<not> isRestarting a" and "delay_gt d (expectedDelay (config a))"
  shows "delay_gt (checkingDelay startTime None) threshold
    \<and> (currentBadCount a + badIncrease (config a) < maxBadCount (config a) \<longrightarrow>
         checking_resume a d =
           (a\<lparr> currentBadCount := currentBadCount a + badIncrease (config a) \<rparr>,
            [Log (Bad_delay d (expectedDelay (config a))
                    (currentBadCount a + badIncrease (config a)))]))
    \<and> (maxBadCount (config a) \<le> currentBadCount a + badIncrease (config a) \<longrightarrow>
         hd (snd (checking_resume a d)) =
           Log (Bad_delay d (expectedDelay (config a))
                  (currentBadCount a + badIncrease (config a)))
         \<and> currentBadCount (fst (checking_resume a d)) = 0
         \<and> isRestarting (fst (checking_resume a d))
         \<and> checkingIntervalHandler (fst (checking_resume a d)) = None
         \<and> calls_restart (snd (checking_resume a d)) = 1)
    \<and> steps five_bad_samples (run (App_constructor default_config 0) 0) =
         Some (\<lparr> app = (App_constructor default_config 0)\<lparr> isRestarting := True \<rparr>,
                 pendingProbes = 0, pendingRestarts = 1, dailyTimer = None \<rparr>,
               [Log (Bad_delay (Finite 2000) 800 2),
                Log (Bad_delay (Finite 2000) 800 4),
                Log (Bad_delay (Finite 2000) 800 6),
                Log (Bad_delay (Finite 2000) 800 8),
                Log (Bad_delay (Finite 2000) 800 10),
                ClearInterval, Log Checking_stop, Log Restarting, Call_modemUtil_restart])"
  using assms bad_sample_below_ceiling[of a d] bad_sample_at_ceiling[of a d]
    five_bad_samples_run
  by (intro conjI impI failed_probe_is_bad) simp_all

theorem bad_sample_scoring_witness:
  "\<not> isRestarting (App_constructor default_config 0)
   \<and> delay_gt (Finite 2000) (expectedDelay (config (App_constructor default_config 0)))
   \<and> checking_resume (App_constructor default_config 0) (Finite 2000) =
       ((App_constructor default_config 0)\<lparr> currentBadCount := 2 \<rparr>,
        [Log (Bad_delay (Finite 2000) 800 2)])
   \<and> currentBadCount (fst (checking_resume
        ((App_constructor default_config 0)\<lparr> currentBadCount := 8 \<rparr>) (Finite 2000))) = 0
   \<and> isRestarting (fst (checking_resume
        ((App_constructor default_config 0)\<lparr> currentBadCount := 8 \<rparr>) (Finite 2000)))
   \<and> calls_restart (snd (checking_resume
        ((App_constructor default_config 0)\<lparr> currentBadCount := 8 \<rparr>) (Finite 2000))) = 1"
proof -
  let ?a = "App_constructor default_config 0"
  let ?b = "(App_constructor default_config 0)\<lparr> currentBadCount := 8 \<rparr>"
  have a: "\<not> isRestarting ?a" "delay_gt (Finite 2000) (expectedDelay (config ?a))"
    "currentBadCount ?a + badIncrease (config ?a) < maxBadCount (config ?a)"
    "currentBadCount ?a + badIncrease (config ?a) = 2" "expectedDelay (config ?a) = 800"
    by (simp_all add: App_constructor_def default_config_def)
  have b: "\<not> isRestarting ?b" "delay_gt (Finite 2000) (expectedDelay (config ?b))"
    "maxBadCount (config ?b) \<le> currentBadCount ?b + badIncrease (config ?b)"
    by (simp_all add: App_constructor_def default_config_def)
  show ?thesis
    using a b bad_sample_scoring[OF a(1,2)] bad_sample_scoring[OF b(1,2)] by simp
qed

section \<open>App: restart orchestration\<close>

lemma restartModem_guarded:
  assumes "isRestarting a"
  shows "restartModem_begin a = (a, [], Settled)"
    and "isRestarting (fst (onBadChecked a))"
    and "calls_restart (snd (onBadChecked a)) = 0"
    and "isRestarting (fst (daily_callback a now))"
    and "calls_restart (snd (snd (daily_callback a now))) = 0"
  using assms
  by (simp_all add: restartModem_begin_def onBadChecked_def daily_callback_def stopChecking_def
      then_startChecking_def startChecking_def registerRestartEveryDay_def calls_restart_def
      Let_def split: option.split)

lemma restart_settled_state:
  "isRestarting (fst (restart_settled a outcome)) = (isRestarting a \<and> outcome = Inr ())"
  "checkingIntervalHandler (fst (restart_settled a outcome)) \<noteq> None"
  "currentBadCount (fst (restart_settled a outcome)) = currentBadCount a"
  by (simp_all add: restart_settled_def restartModem_resume_def startChecking_def
      split: sum.split)

text \<open>
  C3, as the claim states it, fails in its last part. The claim: \<^verbatim>\<open>restartModem\<close> called while
  \<^verbatim>\<open>isRestarting\<close> is true is a strict no-op, so at most one restart is ever in flight,
  whichever path triggered it. Here a restart started by the bad count is still pending
  when the daily timer fires: \<^verbatim>\<open>restartModem\<close> returns at once, so \<^verbatim>\<open>startChecking\<close> runs and
  polling resumes; a good sample clears the flag, five bad samples start a second
  restart. \<^verbatim>\<open>modemUtil.restart()\<close> has been called twice and neither call has settled.
\<close>

theorem overlapping_restarts:
  "map_option (\<lambda>(s, out). (pendingRestarts s, calls_restart out))
     (steps overlapping_restarts_trace (run (App_constructor daily_0300_config 0) 0))
   = Some (2, 2)"
  by code_simp

text \<open>
  C3, amended: \<^verbatim>\<open>restartModem\<close> called while \<^verbatim>\<open>isRestarting\<close> is true is a strict no-op. The
  state is unchanged, nothing is logged and \<^verbatim>\<open>modemUtil.restart()\<close> is not called; this holds
  for the call from \<^verbatim>\<open>onBadChecked\<close> and for the call from the daily timer, both of which
  leave the flag set and call no restart.
\<close>

theorem restartModem_guard:
  assumes "isRestarting a"
  shows "restartModem_begin a = (a, [], Settled)
    \<and> isRestarting (fst (onBadChecked a)) \<and> calls_restart (snd (onBadChecked a)) = 0
    \<and> isRestarting (fst (daily_callback a now))
    \<and> calls_restart (snd (snd (daily_callback a now))) = 0"
  using restartModem_guarded[OF assms] by simp

theorem restartModem_guard_witness:
  "isRestarting ((App_constructor default_config 0)\<lparr> isRestarting := True \<rparr>)
   \<and> restartModem_begin ((App_constructor default_config 0)\<lparr> isRestarting := True \<rparr>)
       = ((App_constructor default_config 0)\<lparr> isRestarting := True \<rparr>, [], Settled)
   \<and> calls_restart (snd (snd (daily_callback
        ((App_constructor default_config 0)\<lparr> isRestarting := True \<rparr>) 10800000))) = 0"
proof -
  have h: "isRestarting ((App_constructor default_config 0)\<lparr> isRestarting := True \<rparr>)"
    by simp
  show ?thesis using h restartModem_guard[OF h, of 10800000] by simp
qed

lemma restart_settled_eq:
  "restart_settled b (Inl e) =
     (if checkingIntervalHandler b = None
      then (b\<lparr> isRestarting := False, checkingIntervalHandler := Some () \<rparr>,
            [Log (Restart_failed e), Log Checking_start,
             SetInterval (checkingInterval (config b))])
      else (b\<lparr> isRestarting := False \<rparr>, [Log (Restart_failed e)]))"
  "restart_settled b (Inr u) =
     (if checkingIntervalHandler b = None
      then (b\<lparr> checkingIntervalHandler := Some () \<rparr>,
            [Log Checking_start, SetInterval (checkingInterval (config b))])
      else (b, []))"
  by (simp_all add: restart_settled_def restartModem_resume_def startChecking_def)

lemma daily_callback_app: "fst (daily_callback a now) = fst (onBadChecked a)"
  by (simp add: daily_callback_def onBadChecked_def split_beta)

lemma daily_callback_calls:
  "calls_restart (snd (snd (daily_callback a now))) = (if isRestarting a then 0 else 1)"
  by (simp add: daily_callback_def stopChecking_def restartModem_begin_def
      then_startChecking_def startChecking_def registerRestartEveryDay_def calls_restart_def
      Let_def split: option.split)

lemma flag_cleared_only_by:
  assumes "isRestarting (app s)" and "step e s = Some (s', es)" and "\<not> isRestarting (app s')"
  shows "(\<exists>startTime endTime. e = ProbeSettles startTime endTime
            \<and> \<not> delay_gt (checkingDelay startTime endTime) (expectedDelay (config (app s))))
         \<or> (\<exists>err. e = RestartSettles (Inl err))"
proof (cases e)
  case IntervalFires
  then show ?thesis using assms by (auto split: if_splits)
next
  case (ProbeSettles st en)
  have "\<not> delay_gt (checkingDelay st en) (expectedDelay (config (app s)))"
  proof
    assume "delay_gt (checkingDelay st en) (expectedDelay (config (app s)))"
    then have "checking_resume (app s) (checkingDelay st en) = (app s, [Log Checked_still_restarting])"
      using assms(1) by (rule bad_sample_while_restarting[rotated])
    then show False using assms ProbeSettles by (auto split: if_splits)
  qed
  then show ?thesis using ProbeSettles by simp
next
  case (DailyTimerFires n)
  then show ?thesis
    using assms restartModem_guarded(4)[OF assms(1), of n]
    by (auto split: option.splits if_splits prod.splits)
next
  case (RestartSettles outcome)
  then have "\<not> isRestarting (fst (restart_settled (app s) outcome))"
    using assms by (auto split: if_splits prod.splits)
  then have "outcome \<noteq> Inr ()" using assms(1) by (simp add: restart_settled_state)
  then obtain err where "outcome = Inl err" by (cases outcome) auto
  then show ?thesis using RestartSettles by simp
qed

text \<open>
  C4, as the claim states it, fails in its last part. The claim: a restart triggered while
  \<^verbatim>\<open>isRestarting\<close> is false sets the flag and calls the device; on failure the flag is
  cleared at once and polling resumes; on success the flag remains true, to be cleared
  only by a later good sample, and polling resumes. In the first run a probe that was
  outstanding when polling was stopped settles good while \<^verbatim>\<open>modemUtil.restart()\<close> is
  pending: the restart then succeeds and ends with the flag false. In the second run two
  restarts are pending; one succeeds and leaves the flag true, the other fails and its
  \<^verbatim>\<open>catch\<close> clears the flag, with no good sample.
\<close>

theorem successful_restart_ends_cleared:
  "map_option (\<lambda>(s, out). (isRestarting (app s), checkingIntervalHandler (app s),
                          pendingRestarts s, calls_restart out))
     (steps straggler_good_probe_trace (run (App_constructor default_config 0) 0))
     = Some (False, Some (), 0, 1)
   \<and> map_option (\<lambda>(s, out). (isRestarting (app s), pendingRestarts s))
     (steps (overlapping_restarts_trace @ [RestartSettles (Inr ())])
        (run (App_constructor daily_0300_config 0) 0))
     = Some (True, 1)
   \<and> map_option (\<lambda>(s, out). (isRestarting (app s), pendingRestarts s))
     (steps (overlapping_restarts_trace @ [RestartSettles (Inr ()), RestartSettles (Inl FetchError)])
        (run (App_constructor daily_0300_config 0) 0))
     = Some (False, 0)"
  by code_simp

text \<open>
  C4, amended: a restart triggered while \<^verbatim>\<open>isRestarting\<close> is false, by \<^verbatim>\<open>onBadChecked\<close> or
  by the daily timer, sets the flag and calls \<^verbatim>\<open>modemUtil.restart()\<close> once, after
  \<^verbatim>\<open>stopChecking\<close> has cleared the interval and reset the count when a handle was set.
  When that call settles, in the same turn: on failure the flag is set to false and the
  failure is logged; on success the flag is left as it is, which is true when the state
  is the one the trigger left; and in both cases \<^verbatim>\<open>startChecking\<close> runs, which with no
  handle logs the start, arms the interval timer with \<^verbatim>\<open>checkingInterval\<close> and stores the
  handle, and with a handle does nothing. A turn of the event loop that finds the flag
  true and leaves it false is the settling of a good sample or of a failed restart, and
  every good sample that finds it true leaves it false.
\<close>

theorem restart_cycle:
  assumes "\<not> isRestarting a"
  shows "restartModem_begin a =
           (a\<lparr> isRestarting := True \<rparr>, [Log Restarting, Call_modemUtil_restart], Pending)
    \<and> onBadChecked a =
         (if checkingIntervalHandler a \<noteq> None
          then (a\<lparr> checkingIntervalHandler := None, currentBadCount := 0,
                    isRestarting := True \<rparr>,
                [ClearInterval, Log Checking_stop, Log Restarting, Call_modemUtil_restart])
          else (a\<lparr> isRestarting := True \<rparr>, [Log Restarting, Call_modemUtil_restart]))
    \<and> fst (daily_callback a now) = fst (onBadChecked a)
    \<and> calls_restart (snd (snd (daily_callback a now))) = 1
    \<and> (\<forall>b e. restart fetch (modemUtil b) = Inl e \<longrightarrow>
          restart_settled b (restart fetch (modemUtil b)) =
            (if checkingIntervalHandler b = None
             then (b\<lparr> isRestarting := False, checkingIntervalHandler := Some () \<rparr>,
                   [Log (Restart_failed e), Log Checking_start,
                    SetInterval (checkingInterval (config b))])
             else (b\<lparr> isRestarting := False \<rparr>, [Log (Restart_failed e)])))
    \<and> (\<forall>b. restart fetch (modemUtil b) = Inr () \<longrightarrow>
          restart_settled b (restart fetch (modemUtil b)) =
            (if checkingIntervalHandler b = None
             then (b\<lparr> checkingIntervalHandler := Some () \<rparr>,
                   [Log Checking_start, SetInterval (checkingInterval (config b))])
             else (b, [])))
    \<and> (restart fetch (modemUtil a) = Inr () \<longrightarrow>
          restart_settled (fst (onBadChecked a)) (restart fetch (modemUtil a)) =
            ((fst (onBadChecked a))\<lparr> checkingIntervalHandler := Some () \<rparr>,
             [Log Checking_start, SetInterval (checkingInterval (config a))])
          \<and> isRestarting (fst (restart_settled (fst (onBadChecked a))
                                 (restart fetch (modemUtil a)))))
    \<and> (\<forall>s e s' es. isRestarting (app s) \<and> step e s = Some (s', es)
                     \<and> \<not> isRestarting (app s') \<longrightarrow>
          (\<exists>startTime endTime. e = ProbeSettles startTime endTime
             \<and> \<not> delay_gt (checkingDelay startTime endTime) (expectedDelay (config (app s))))
          \<or> (\<exists>err. e = RestartSettles (Inl err)))
    \<and> (\<forall>b d. isRestarting b \<and> \<not> delay_gt d (expectedDelay (config b)) \<longrightarrow>
          \<not> isRestarting (fst (checking_resume b d)))"
proof (intro conjI allI impI)
  show "restartModem_begin a =
           (a\<lparr> isRestarting := True \<rparr>, [Log Restarting, Call_modemUtil_restart], Pending)"
    using assms by (simp add: restartModem_begin_def)
  show "onBadChecked a =
         (if checkingIntervalHandler a \<noteq> None
          then (a\<lparr> checkingIntervalHandler := None, currentBadCount := 0,
                    isRestarting := True \<rparr>,
                [ClearInterval, Log Checking_stop, Log Restarting, Call_modemUtil_restart])
          else (a\<lparr> isRestarting := True \<rparr>, [Log Restarting, Call_modemUtil_restart]))"
    using assms by (rule onBadChecked_fresh)
  show "fst (daily_callback a now) = fst (onBadChecked a)"
    by (rule daily_callback_app)
  show "calls_restart (snd (snd (daily_callback a now))) = 1"
    using assms by (simp add: daily_callback_calls)
next
  fix b :: App and e assume "restart fetch (modemUtil b) = Inl e"
  then show "restart_settled b (restart fetch (modemUtil b)) =
            (if checkingIntervalHandler b = None
             then (b\<lparr> isRestarting := False, checkingIntervalHandler := Some () \<rparr>,
                   [Log (Restart_failed e), Log Checking_start,
                    SetInterval (checkingInterval (config b))])
             else (b\<lparr> isRestarting := False \<rparr>, [Log (Restart_failed e)]))"
    by (simp only: restart_settled_eq)
next
  fix b :: App assume "restart fetch (modemUtil b) = Inr ()"
  then show "restart_settled b (restart fetch (modemUtil b)) =
            (if checkingIntervalHandler b = None
             then (b\<lparr> checkingIntervalHandler := Some () \<rparr>,
                   [Log Checking_start, SetInterval (checkingInterval (config b))])
             else (b, []))"
    by (simp only: restart_settled_eq)
next
  assume r: "restart fetch (modemUtil a) = Inr ()"
  have h: "checkingIntervalHandler (fst (onBadChecked a)) = None"
    "isRestarting (fst (onBadChecked a))" "config (fst (onBadChecked a)) = config a"
    using assms by (auto simp: onBadChecked_fresh no_handle)
  show "restart_settled (fst (onBadChecked a)) (restart fetch (modemUtil a)) =
            ((fst (onBadChecked a))\<lparr> checkingIntervalHandler := Some () \<rparr>,
             [Log Checking_start, SetInterval (checkingInterval (config a))])"
    using h by (simp add: r restart_settled_eq)
  show "isRestarting (fst (restart_settled (fst (onBadChecked a))
                                 (restart fetch (modemUtil a))))"
    using h by (simp add: r restart_settled_state)
next
  fix s e s' es
  assume "isRestarting (app s) \<and> step e s = Some (s', es) \<and> \<not> isRestarting (app s')"
  then show "(\<exists>startTime endTime. e = ProbeSettles startTime endTime
             \<and> \<not> delay_gt (checkingDelay startTime endTime) (expectedDelay (config (app s))))
          \<or> (\<exists>err. e = RestartSettles (Inl err))"
    using flag_cleared_only_by[of s e s' es] by blast
next
  fix b :: App and d assume "isRestarting b \<and> \<not> delay_gt d (expectedDelay (config b))"
  then show "\<not> isRestarting (fst (checking_resume b d))"
    using good_sample(1)[of d b] by simp
qed


theorem restart_cycle_witness:
  "\<not> isRestarting ((App_constructor default_config 0)\<lparr> checkingIntervalHandler := Some () \<rparr>)
   \<and> onBadChecked ((App_constructor default_config 0)\<lparr> checkingIntervalHandler := Some () \<rparr>)
       = ((App_constructor default_config 0)\<lparr> isRestarting := True \<rparr>,
          [ClearInterval, Log Checking_stop, Log Restarting, Call_modemUtil_restart])
   \<and> restart modem_unreachable
         (modemUtil ((App_constructor default_config 0)\<lparr> isRestarting := True \<rparr>))
       = Inl FetchError
   \<and> restart_settled ((App_constructor default_config 0)\<lparr> isRestarting := True \<rparr>)
         (restart modem_unreachable
            (modemUtil ((App_constructor default_config 0)\<lparr> isRestarting := True \<rparr>)))
       = ((App_constructor default_config 0)\<lparr> checkingIntervalHandler := Some () \<rparr>,
          [Log (Restart_failed FetchError), Log Checking_start, SetInterval 2000])
   \<and> restart modem_silent_login
         (modemUtil ((App_constructor default_config 0)\<lparr> isRestarting := True \<rparr>))
       = Inr ()
   \<and> restart_settled ((App_constructor default_config 0)\<lparr> isRestarting := True \<rparr>)
         (restart modem_silent_login
            (modemUtil ((App_constructor default_config 0)\<lparr> isRestarting := True \<rparr>)))
       = ((App_constructor default_config 0)
            \<lparr> isRestarting := True, checkingIntervalHandler := Some () \<rparr>,
          [Log Checking_start, SetInterval 2000])
   \<and> map_option (\<lambda>(s, out). isRestarting (app s))
         (steps (five_bad_samples @ [RestartSettles (Inr ()), IntervalFires])
            (run (App_constructor default_config 0) 0)) = Some True
   \<and> map_option (\<lambda>(s, out). isRestarting (app s))
         (steps (five_bad_samples @ [RestartSettles (Inr ()), IntervalFires,
                                     ProbeSettles 14000 (Some 14100)])
            (run (App_constructor default_config 0) 0)) = Some False"
proof -
  let ?a = "(App_constructor default_config 0)\<lparr> checkingIntervalHandler := Some () \<rparr>"
  let ?b = "(App_constructor default_config 0)\<lparr> isRestarting := True \<rparr>"
  have h: "\<not> isRestarting ?a" by (simp add: App_constructor_def)
  have u: "restart modem_unreachable (modemUtil ?b) = Inl FetchError"
    by (rule restart_unreachable)
  have v: "restart modem_silent_login (modemUtil ?b) = Inr ()"
    using restart_silent_login by simp
  have c: "checkingIntervalHandler ?b = None" "checkingInterval (config ?b) = 2000"
    by (simp_all add: App_constructor_def default_config_def)
  have o: "onBadChecked ?a = (?b, [ClearInterval, Log Checking_stop, Log Restarting,
                                   Call_modemUtil_restart])"
    using restart_cycle[OF h, of 0 modem_unreachable] by (simp add: App_constructor_def)
  have f: "restart_settled ?b (restart modem_unreachable (modemUtil ?b)) =
            (if checkingIntervalHandler ?b = None
             then (?b\<lparr> isRestarting := False, checkingIntervalHandler := Some () \<rparr>,
                   [Log (Restart_failed FetchError), Log Checking_start,
                    SetInterval (checkingInterval (config ?b))])
             else (?b\<lparr> isRestarting := False \<rparr>, [Log (Restart_failed FetchError)]))"
    using restart_cycle[OF h, of 0 modem_unreachable] u by blast
  have g: "restart_settled ?b (restart modem_silent_login (modemUtil ?b)) =
            (if checkingIntervalHandler ?b = None
             then (?b\<lparr> checkingIntervalHandler := Some () \<rparr>,
                   [Log Checking_start, SetInterval (checkingInterval (config ?b))])
             else (?b, []))"
    using restart_cycle[OF h, of 0 modem_silent_login] v by blast
  have f': "restart_settled ?b (restart modem_unreachable (modemUtil ?b)) =
       (?a, [Log (Restart_failed FetchError), Log Checking_start, SetInterval 2000])"
    unfolding f using c by (simp add: App_constructor_def)
  have g': "restart_settled ?b (restart modem_silent_login (modemUtil ?b)) =
       ((App_constructor default_config 0)
            \<lparr> isRestarting := True, checkingIntervalHandler := Some () \<rparr>,
        [Log Checking_start, SetInterval 2000])"
    unfolding g using c by simp
  have t1: "map_option (\<lambda>(s, out). isRestarting (app s))
         (steps (five_bad_samples @ [RestartSettles (Inr ()), IntervalFires])
            (run (App_constructor default_config 0) 0)) = Some True"
    by code_simp
  have t2: "map_option (\<lambda>(s, out). isRestarting (app s))
         (steps (five_bad_samples @ [RestartSettles (Inr ()), IntervalFires,
                                     ProbeSettles 14000 (Some 14100)])
            (run (App_constructor default_config 0) 0)) = Some False"
    by code_simp
  show ?thesis
    using h o u v f' g' t1 t2 by (intro conjI)
qed

text \<open>
  C9, as the claim states it, fails for a good sample. The claim: while \<^verbatim>\<open>isRestarting\<close> is
  true no sample changes the bad count. The good branch tests the flag and then applies
  the decrement all the same. In this run the flag is set while the count is 2 (two
  probes settle after \<^verbatim>\<open>clearInterval\<close>, then the daily timer starts a restart without
  \<^verbatim>\<open>stopChecking\<close> resetting the count, the handle being null already), and the next
  good sample takes the count from 2 to 1.
\<close>

theorem scoring_while_restarting:
  "map_option (\<lambda>(s, out). (isRestarting (app s), currentBadCount (app s)))
     (steps straggler_probes_trace (run (App_constructor daily_0300_config 0) 0))
     = Some (True, 2)
   \<and> map_option (\<lambda>(s, out). (isRestarting (app s), currentBadCount (app s)))
     (steps (straggler_probes_trace @ [ProbeSettles 10802000 (Some 10802100)])
        (run (App_constructor daily_0300_config 0) 0))
     = Some (False, 1)"
  by code_simp

text \<open>
  C9, amended: while \<^verbatim>\<open>isRestarting\<close> is true, a bad sample changes nothing (no increment,
  no restart), and a good sample clears the flag and leaves the bad count as it is
  whenever the count is not positive, as it is when the restart began right after the
  count was reset.
\<close>

theorem sample_while_restarting:
  assumes "isRestarting a"
  shows "(delay_gt d (expectedDelay (config a)) \<longrightarrow>
            checking_resume a d = (a, [Log Checked_still_restarting]))
    \<and> (\<not> delay_gt d (expectedDelay (config a)) \<and> currentBadCount a \<le> 0 \<longrightarrow>
            checking_resume a d = (a\<lparr> isRestarting := False \<rparr>, [Log Restart_successfully]))"
  using assms by (simp add: bad_sample_while_restarting good_sample_idle)

theorem sample_while_restarting_witness:
  "isRestarting ((App_constructor default_config 0)\<lparr> isRestarting := True \<rparr>)
   \<and> delay_gt (Finite 2000)
        (expectedDelay (config ((App_constructor default_config 0)\<lparr> isRestarting := True \<rparr>)))
   \<and> checking_resume ((App_constructor default_config 0)\<lparr> isRestarting := True \<rparr>) (Finite 2000)
       = ((App_constructor default_config 0)\<lparr> isRestarting := True \<rparr>,
          [Log Checked_still_restarting])
   \<and> \<not> delay_gt (Finite 100)
        (expectedDelay (config ((App_constructor default_config 0)\<lparr> isRestarting := True \<rparr>)))
   \<and> currentBadCount ((App_constructor default_config 0)\<lparr> isRestarting := True \<rparr>) \<le> 0
   \<and> checking_resume ((App_constructor default_config 0)\<lparr> isRestarting := True \<rparr>) (Finite 100)
       = ((App_constructor default_config 0)\<lparr> isRestarting := False \<rparr>,
          [Log Restart_successfully])"
proof -
  let ?a = "(App_constructor default_config 0)\<lparr> isRestarting := True \<rparr>"
  have h: "isRestarting ?a" by simp
  have e: "expectedDelay (config (App_constructor default_config 0)) = 800"
    "currentBadCount (App_constructor default_config 0) = 0"
    by (simp_all add: App_constructor_def default_config_def)
  show ?thesis
    using h sample_while_restarting[OF h, of "Finite 2000"]
      sample_while_restarting[OF h, of "Finite 100"]
    by (simp add: e)
qed

section \<open>The daily timer\<close>

lemma field_of_time:
  fixes t b c q x r :: int
  assumes "t = b * (c * q + x) + r" "0 \<le> r" "r < b" "0 \<le> x" "x < c"
  shows "(t div b) mod c = x"
proof -
  have "t div b = c * q + x"
    using assms(1-3) by (rule int_div_pos_eq)
  moreover have "(c * q + x) mod c = x"
    using assms(4,5) by (intro int_mod_pos_eq[where q = q]) auto
  ultimately show ?thesis by simp
qed

lemma time_fields:
  assumes "0 \<le> h" "h < 24" "0 \<le> m" "m < 60" "0 \<le> s" "s < 60" "0 \<le> ms" "ms < 1000"
  shows "Day (MakeDate d (MakeTime h m s ms)) = d"
    and "HourFromTime (MakeDate d (MakeTime h m s ms)) = h"
    and "MinFromTime (MakeDate d (MakeTime h m s ms)) = m"
    and "SecFromTime (MakeDate d (MakeTime h m s ms)) = s"
    and "msFromTime (MakeDate d (MakeTime h m s ms)) = ms"
proof -
  let ?t = "MakeDate d (MakeTime h m s ms)"
  have t: "?t = d * 86400000 + h * 3600000 + m * 60000 + s * 1000 + ms"
    by (simp add: MakeDate_def MakeTime_def)
  have "?t = 86400000 * d + (h * 3600000 + m * 60000 + s * 1000 + ms)" using t by simp
  then show "Day ?t = d" unfolding Day_def using assms
    by (intro int_div_pos_eq[where r = "h * 3600000 + m * 60000 + s * 1000 + ms"]) auto
  have "?t = 3600000 * (24 * d + h) + (m * 60000 + s * 1000 + ms)" using t by simp
  then show "HourFromTime ?t = h" unfolding HourFromTime_def using assms
    by (intro field_of_time[where q = d and r = "m * 60000 + s * 1000 + ms"]) auto
  have "?t = 60000 * (60 * (d * 24 + h) + m) + (s * 1000 + ms)" using t by simp
  then show "MinFromTime ?t = m" unfolding MinFromTime_def using assms
    by (intro field_of_time[where q = "d * 24 + h" and r = "s * 1000 + ms"]) auto
  have "?t = 1000 * (60 * (d * 1440 + h * 60 + m) + s) + ms" using t by simp
  then show "SecFromTime ?t = s" unfolding SecFromTime_def using assms
    by (intro field_of_time[where q = "d * 1440 + h * 60 + m" and r = ms]) auto
  have "?t = 1000 * (d * 86400 + h * 3600 + m * 60 + s) + ms" using t by simp
  then show "msFromTime ?t = ms" unfolding msFromTime_def using assms
    by (intro int_mod_pos_eq[where q = "d * 86400 + h * 3600 + m * 60 + s"]) auto
qed

lemma field_ranges:
  "0 \<le> HourFromTime t" "HourFromTime t < 24" "0 \<le> MinFromTime t" "MinFromTime t < 60"
  "0 \<le> SecFromTime t" "SecFromTime t < 60" "0 \<le> msFromTime t" "msFromTime t < 1000"
  by (simp_all add: HourFromTime_def MinFromTime_def SecFromTime_def msFromTime_def)

lemma time_of_day_range: "0 \<le> time_of_day c" "time_of_day c < 86400000"
  using field_ranges[of c] by (auto simp: time_of_day_def MakeTime_def)

lemma today_at:
  "setMilliseconds (setSeconds (setMinutes (setHours (Date now) (Some (HourFromTime c)))
      (Some (MinFromTime c))) (Some (SecFromTime c))) (Some 0)
   = Date (MakeDate (Day now) (time_of_day c))"
  by (simp add: time_fields field_ranges time_of_day_def)

lemma nextRestartTime_eq:
  "nextRestartTime (Date c) now =
     Date (if MakeDate (Day now) (time_of_day c) \<le> now
           then MakeDate (Day now + 1) (time_of_day c)
           else MakeDate (Day now) (time_of_day c))"
proof -
  have d: "Day (MakeDate (Day now) (time_of_day c)) = Day now"
    unfolding time_of_day_def by (simp add: time_fields field_ranges)
  have m: "MakeDate (Day now) (time_of_day c) mod 86400000 = time_of_day c"
    unfolding MakeDate_def using time_of_day_range[of c]
    by (intro int_mod_pos_eq[where q = "Day now"]) auto
  show ?thesis
    unfolding nextRestartTime_def Let_def getHours.simps getMinutes.simps getSeconds.simps today_at
    by (simp add: d m)
qed

lemma now_in_day: "MakeDate (Day now) 0 \<le> now" "now < MakeDate (Day now) 0 + 86400000"
  unfolding MakeDate_def Day_def by (simp_all add: div_mult_self3 algebra_simps)

lemma next_bounds:
  assumes "nextRestartTime (Date c) now = Date next"
  shows "now < next" and "next \<le> now + 86400000" and "next mod 86400000 = time_of_day c"
    and "Day next = (if MakeDate (Day now) (time_of_day c) \<le> now then Day now + 1 else Day now)"
proof -
  have n: "next = (if MakeDate (Day now) (time_of_day c) \<le> now
           then MakeDate (Day now + 1) (time_of_day c)
           else MakeDate (Day now) (time_of_day c))"
    using assms unfolding nextRestartTime_eq by simp
  note r = time_of_day_range[of c] now_in_day[of now]
  show "now < next" using n r by (auto simp: MakeDate_def)
  show "next \<le> now + 86400000" using n r by (auto simp: MakeDate_def)
  show "next mod 86400000 = time_of_day c"
  proof (cases "MakeDate (Day now) (time_of_day c) \<le> now")
    case True
    then have "next = 86400000 * (Day now + 1) + time_of_day c" using n by (simp add: MakeDate_def)
    then show ?thesis using r by (intro int_mod_pos_eq[where q = "Day now + 1"]) auto
  next
    case False
    then have "next = 86400000 * Day now + time_of_day c" using n by (simp add: MakeDate_def)
    then show ?thesis using r by (intro int_mod_pos_eq[where q = "Day now"]) auto
  qed
  show "Day next = (if MakeDate (Day now) (time_of_day c) \<le> now then Day now + 1 else Day now)"
  proof (cases "MakeDate (Day now) (time_of_day c) \<le> now")
    case True
    then have "next = 86400000 * (Day now + 1) + time_of_day c" using n by (simp add: MakeDate_def)
    then have "next div 86400000 = Day now + 1" using r by (intro int_div_pos_eq[where r = "time_of_day c"]) auto
    then show ?thesis using True by (simp add: Day_def)
  next
    case False
    then have "next = 86400000 * Day now + time_of_day c" using n by (simp add: MakeDate_def)
    then have "next div 86400000 = Day now" using r by (intro int_div_pos_eq[where r = "time_of_day c"]) auto
    then show ?thesis using False by (simp add: Day_def)
  qed
qed

lemma same_time_of_day_apart:
  fixes t u :: int
  assumes "t mod 86400000 = u mod 86400000" and "t < u"
  shows "t + 86400000 \<le> u"
proof -
  have "(u - t) mod 86400000 = 0"
    using assms(1) by (metis mod_diff_cong cancel_comm_monoid_add_class.diff_cancel mod_0)
  then have "86400000 dvd (u - t)" by (simp add: dvd_eq_mod_eq_0)
  moreover have "0 < u - t" using assms(2) by simp
  ultimately have "86400000 \<le> u - t" by (rule zdvd_imp_le)
  then show ?thesis by simp
qed

lemma next_least:
  assumes "nextRestartTime (Date c) now = Date next" and "now < t"
    and "t mod 86400000 = next mod 86400000"
  shows "next \<le> t"
proof (rule ccontr)
  assume "\<not> next \<le> t"
  then have "t + 86400000 \<le> next" using same_time_of_day_apart[OF assms(3)] by simp
  then show False using next_bounds(2)[OF assms(1)] assms(2) by simp
qed


lemma parseDate_0300: "parseDate ''03:00'' t0 = Date (MakeDate (Day t0) (MakeTime 3 0 0 0))"
proof -
  have "map parseInt (split CHR '':'' ''03:00'') = [Some 3, Some 0]"
    by (simp add: parseInt_def StrWhiteSpaceChar_def is_digit_def digits_value_def digit_of_def)
  then show ?thesis
    unfolding parseDate_def Let_def element_def by (simp add: time_fields field_ranges)
qed

lemma scenario_0305:
  "nextRestartTime (parseDate ''03:00'' t0) (MakeDate d (MakeTime 3 5 0 0))
     = Date (MakeDate (d + 1) (MakeTime 3 0 0 0))"
proof -
  have "time_of_day (MakeDate (Day t0) (MakeTime 3 0 0 0)) = MakeTime 3 0 0 0"
    by (simp add: time_of_day_def time_fields)
  moreover have "Day (MakeDate d (MakeTime 3 5 0 0)) = d" by (simp add: time_fields)
  ultimately show ?thesis
    unfolding parseDate_0300 nextRestartTime_eq by (simp add: MakeDate_def MakeTime_def)
qed

lemma registerRestartEveryDay_valid:
  assumes "restartEveryDayDate a = Some (Date c)" and "nextRestartTime (Date c) now = Date nxt"
  shows "registerRestartEveryDay a now =
           (Some (nxt - now), [Log (Next_restart_time (Date nxt)), SetTimeout (nxt - now)])"
proof -
  have "1 \<le> nxt - now" "nxt - now \<le> 2147483647"
    using next_bounds(1,2)[OF assms(2)] by simp_all
  then have "timer_delay (Some (nxt - now)) = nxt - now" by (simp add: timer_delay_def)
  then show ?thesis using assms by (simp add: registerRestartEveryDay_def)
qed






text \<open>
  C6: from the instant \<open>now\<close> and a valid configured date \<open>c\<close>, the daily scheduler
  computes an instant strictly after \<open>now\<close> and at most one day after it, at the hour,
  minute and second of \<open>c\<close> with 0 ms; it is the first instant after \<open>now\<close> with that time
  of day, and it lies on the next day exactly when today's occurrence is not after \<open>now\<close>.
  The timer is armed with the difference. With the configured time \<^verbatim>\<open>"03:00"\<close> and the
  clock at 03:05 of day \<open>d\<close>, the instant is 03:00 of day \<open>d + 1\<close>.
\<close>

theorem next_daily_restart:
  "\<exists>nxt. nextRestartTime (Date c) now = Date nxt
     \<and> now < nxt \<and> nxt \<le> now + msPerDay
     \<and> HourFromTime nxt = HourFromTime c \<and> MinFromTime nxt = MinFromTime c
     \<and> SecFromTime nxt = SecFromTime c \<and> msFromTime nxt = 0
     \<and> nxt mod msPerDay = time_of_day c
     \<and> (\<forall>t. now < t \<and> t mod msPerDay = time_of_day c \<longrightarrow> nxt \<le> t)
     \<and> Day nxt = (if MakeDate (Day now) (time_of_day c) \<le> now then Day now + 1 else Day now)
     \<and> (restartEveryDayDate a = Some (Date c) \<longrightarrow>
          registerRestartEveryDay a now =
            (Some (nxt - now), [Log (Next_restart_time (Date nxt)), SetTimeout (nxt - now)]))
     \<and> nextRestartTime (parseDate ''03:00'' t0) (MakeDate d (MakeTime 3 5 0 0))
          = Date (MakeDate (d + 1) (MakeTime 3 0 0 0))"
proof -
  obtain nxt where n: "nextRestartTime (Date c) now = Date nxt"
    unfolding nextRestartTime_eq by simp
  have f: "nxt = MakeDate (Day nxt) (MakeTime (HourFromTime c) (MinFromTime c) (SecFromTime c) 0)"
    using n next_bounds(4)[OF n] unfolding nextRestartTime_eq time_of_day_def
    by (simp split: if_splits)
  have fields: "HourFromTime nxt = HourFromTime c" "MinFromTime nxt = MinFromTime c"
    "SecFromTime nxt = SecFromTime c" "msFromTime nxt = 0"
    by (subst f, simp add: time_fields field_ranges)+
  have least: "\<forall>t. now < t \<and> t mod msPerDay = time_of_day c \<longrightarrow> nxt \<le> t"
    using next_least[OF n] next_bounds(3)[OF n] by simp
  show ?thesis
    using n next_bounds[OF n] fields least registerRestartEveryDay_valid[OF _ n, of a]
      scenario_0305[of t0 d]
    by (intro exI[of _ nxt]) simp
qed

theorem next_daily_restart_witness:
  "nextRestartTime (Date 10800000) 1728011100000 = Date 1728097200000
   \<and> (1728011100000 :: int) < 1728183600000
   \<and> (1728183600000 :: int) mod msPerDay = time_of_day 10800000
   \<and> (1728097200000 :: int) \<le> 1728183600000
   \<and> restartEveryDayDate (App_constructor daily_0300_config 0) = Some (Date 10800000)
   \<and> registerRestartEveryDay (App_constructor daily_0300_config 0) 1728011100000 =
        (Some 86100000, [Log (Next_restart_time (Date 1728097200000)), SetTimeout 86100000])"
proof -
  let ?a = "App_constructor daily_0300_config 0"
  have v: "nextRestartTime (Date 10800000) 1728011100000 = Date 1728097200000"
    by code_simp
  have t: "(1728183600000 :: int) mod msPerDay = time_of_day 10800000"
    by code_simp
  have a: "restartEveryDayDate ?a = Some (Date 10800000)"
    by code_simp
  from next_daily_restart[of 10800000 1728011100000 ?a 0 0]
  obtain nxt where n: "nextRestartTime (Date 10800000) 1728011100000 = Date nxt"
    and l: "\<forall>t. 1728011100000 < t \<and> t mod msPerDay = time_of_day 10800000 \<longrightarrow> nxt \<le> t"
    and r: "restartEveryDayDate ?a = Some (Date 10800000) \<longrightarrow>
          registerRestartEveryDay ?a 1728011100000 =
            (Some (nxt - 1728011100000),
             [Log (Next_restart_time (Date nxt)), SetTimeout (nxt - 1728011100000)])"
    by blast
  have e: "nxt = 1728097200000" using n v by simp
  have "nxt \<le> 1728183600000" using l t by simp
  then show ?thesis using v t a r e by simp
qed



end
